theory Spec2Isabelle
  imports Complex_Main "HOL-Library.AList"
begin

section \<open>JavaScript values\<close>

text \<open>
  The validators and the search criteria work on values of type \<^verbatim>\<open>any\<close>. The model
  keeps the primitive values: \<^verbatim>\<open>undefined\<close>, \<^verbatim>\<open>null\<close>, booleans, numbers and strings.
  A number is \<^verbatim>\<open>NaN\<close>, an infinity or an exact rational: the rounding of IEEE doubles
  is not part of the model. Strings are ASCII.
\<close>

datatype jsnum = NaN | NegInf | Fin rat | PosInf

datatype jsval = JUndefined | JNull | JBool bool | JNum jsnum | JStr string

text \<open>\<^verbatim>\<open>a <= b\<close> on numbers: every comparison with \<^verbatim>\<open>NaN\<close> is false.\<close>

fun jsnum_le :: "jsnum \<Rightarrow> jsnum \<Rightarrow> bool" where
  "jsnum_le NaN b = False"
| "jsnum_le a NaN = False"
| "jsnum_le NegInf b = True"
| "jsnum_le a PosInf = True"
| "jsnum_le (Fin a) (Fin b) = (a \<le> b)"
| "jsnum_le (Fin a) NegInf = False"
| "jsnum_le PosInf b = False"

text \<open>\<^verbatim>\<open>a >= b\<close> is \<^verbatim>\<open>b <= a\<close>, also on \<^verbatim>\<open>NaN\<close>.\<close>

definition jsnum_ge :: "jsnum \<Rightarrow> jsnum \<Rightarrow> bool" where
  "jsnum_ge a b = jsnum_le b a"

definition isNaN :: "jsnum \<Rightarrow> bool" where
  "isNaN n = (n = NaN)"

definition jsnum_truthy :: "jsnum \<Rightarrow> bool" where
  "jsnum_truthy n = (n \<noteq> NaN \<and> n \<noteq> Fin 0)"

text \<open>Truthiness, as \<^verbatim>\<open>!v\<close>, \<^verbatim>\<open>v || w\<close> and \<^verbatim>\<open>v && w\<close> test it.\<close>

fun truthy :: "jsval \<Rightarrow> bool" where
  "truthy JUndefined = False"
| "truthy JNull = False"
| "truthy (JBool b) = b"
| "truthy (JNum n) = jsnum_truthy n"
| "truthy (JStr s) = (s \<noteq> [])"

definition isNull :: "jsval \<Rightarrow> bool" where
  "isNull v = (v = JNull)"

definition isUndefined :: "jsval \<Rightarrow> bool" where
  "isUndefined v = (v = JUndefined)"

subsection \<open>The unary plus: conversion to a number\<close>

definition is_ws :: "char \<Rightarrow> bool" where
  "is_ws c = ((of_char c :: nat) \<in> {9, 10, 11, 12, 13, 32})"

definition is_digit :: "char \<Rightarrow> bool" where
  "is_digit c = (48 \<le> (of_char c :: nat) \<and> (of_char c :: nat) \<le> 57)"

definition is_hex_digit :: "char \<Rightarrow> bool" where
  "is_hex_digit c =
     (let n = (of_char c :: nat)
      in (48 \<le> n \<and> n \<le> 57) \<or> (65 \<le> n \<and> n \<le> 70) \<or> (97 \<le> n \<and> n \<le> 102))"

definition digit_val :: "char \<Rightarrow> nat" where
  "digit_val c =
     (let n = (of_char c :: nat)
      in if 97 \<le> n then n - 87 else if 65 \<le> n then n - 55 else n - 48)"

definition digits_val :: "nat \<Rightarrow> string \<Rightarrow> nat" where
  "digits_val base s = foldl (\<lambda>acc c. base * acc + digit_val c) 0 s"

definition trim :: "string \<Rightarrow> string" where
  "trim s = rev (dropWhile is_ws (rev (dropWhile is_ws s)))"

text \<open>The exponent part of a decimal literal: nothing, or \<^verbatim>\<open>e\<close> or \<^verbatim>\<open>E\<close>, an optional
  sign and at least one digit.\<close>

fun exponent_part :: "string \<Rightarrow> int option" where
  "exponent_part [] = Some 0"
| "exponent_part (c # t) =
     (if c = CHR ''e'' \<or> c = CHR ''E'' then
        (case t of
           [] \<Rightarrow> None
         | d # u \<Rightarrow>
             if d = CHR ''-'' then
               (if u \<noteq> [] \<and> list_all is_digit u then Some (- int (digits_val 10 u)) else None)
             else if d = CHR ''+'' then
               (if u \<noteq> [] \<and> list_all is_digit u then Some (int (digits_val 10 u)) else None)
             else if list_all is_digit t then Some (int (digits_val 10 t)) else None)
      else None)"

definition scale10 :: "rat \<Rightarrow> int \<Rightarrow> rat" where
  "scale10 m e = (if 0 \<le> e then m * 10 ^ nat e else m / 10 ^ nat (- e))"

text \<open>An unsigned decimal literal: digits, an optional fraction, an optional exponent,
  with a digit before or after the point.\<close>

definition unsigned_decimal :: "string \<Rightarrow> jsnum" where
  "unsigned_decimal s =
     (let ip = takeWhile is_digit s;
          r1 = dropWhile is_digit s;
          fp = (case r1 of [] \<Rightarrow> [] | c # t \<Rightarrow> if c = CHR ''.'' then takeWhile is_digit t else []);
          r2 = (case r1 of [] \<Rightarrow> [] | c # t \<Rightarrow> if c = CHR ''.'' then dropWhile is_digit t else r1)
      in if ip = [] \<and> fp = [] then NaN
         else (case exponent_part r2 of
                 None \<Rightarrow> NaN
               | Some e \<Rightarrow>
                   Fin (scale10 (of_nat (digits_val 10 ip)
                                 + of_nat (digits_val 10 fp) / 10 ^ length fp) e)))"

definition signed_decimal :: "string \<Rightarrow> jsnum" where
  "signed_decimal s =
     (case s of
        [] \<Rightarrow> NaN
      | c # t \<Rightarrow>
          if c = CHR ''-'' then
            (if t = ''Infinity'' then NegInf
             else (case unsigned_decimal t of Fin x \<Rightarrow> Fin (- x) | n \<Rightarrow> n))
          else if c = CHR ''+'' then
            (if t = ''Infinity'' then PosInf else unsigned_decimal t)
          else if s = ''Infinity'' then PosInf
          else unsigned_decimal s)"

definition radix_literal :: "string \<Rightarrow> jsnum option" where
  "radix_literal s =
     (case s of
        z # x # t \<Rightarrow>
          if z = CHR ''0'' \<and> (x = CHR ''x'' \<or> x = CHR ''X'') then
            Some (if t \<noteq> [] \<and> list_all is_hex_digit t then Fin (of_nat (digits_val 16 t)) else NaN)
          else if z = CHR ''0'' \<and> (x = CHR ''o'' \<or> x = CHR ''O'') then
            Some (if t \<noteq> [] \<and> list_all (\<lambda>c. is_digit c \<and> digit_val c < 8) t
                  then Fin (of_nat (digits_val 8 t)) else NaN)
          else if z = CHR ''0'' \<and> (x = CHR ''b'' \<or> x = CHR ''B'') then
            Some (if t \<noteq> [] \<and> list_all (\<lambda>c. is_digit c \<and> digit_val c < 2) t
                  then Fin (of_nat (digits_val 2 t)) else NaN)
          else None
      | _ \<Rightarrow> None)"

definition string_to_number :: "string \<Rightarrow> jsnum" where
  "string_to_number s =
     (let t = trim s
      in if t = [] then Fin 0
         else (case radix_literal t of Some n \<Rightarrow> n | None \<Rightarrow> signed_decimal t))"

text \<open>\<^verbatim>\<open>+v\<close>\<close>

fun to_number :: "jsval \<Rightarrow> jsnum" where
  "to_number JUndefined = NaN"
| "to_number JNull = Fin 0"
| "to_number (JBool b) = Fin (if b then 1 else 0)"
| "to_number (JNum n) = n"
| "to_number (JStr s) = string_to_number s"

text \<open>\<^verbatim>\<open>v.length\<close>, read as a number in a comparison: the length of a string, and
  \<^verbatim>\<open>undefined\<close> (so \<^verbatim>\<open>NaN\<close>) on a number or a boolean.\<close>

fun js_length :: "jsval \<Rightarrow> jsnum" where
  "js_length (JStr s) = Fin (of_nat (length s))"
| "js_length v = NaN"

section \<open>Validation (validation.ts)\<close>

record TrKey =
  translationKey :: "string option"

record NumberOptions = TrKey +
  min_n :: "jsnum option"
  max_n :: "jsnum option"

record StringOptions = TrKey +
  minLength :: "jsnum option"
  maxLength :: "jsnum option"

record FunctionOptions = TrKey +
  isEdit :: "bool option"

text \<open>
  A validator descriptor. A regular expression is the predicate its \<^verbatim>\<open>test\<close> method
  computes, a custom function the predicate it computes. \<open>UnknownValidator\<close> is a
  descriptor whose \<^verbatim>\<open>type\<close> is none of the seven known ones.
\<close>

datatype Validator =
    RequiredValidator bool "TrKey option"
  | RegexValidator "jsval \<Rightarrow> bool" "TrKey option"
  | EmailValidator "TrKey option"
  | NumberValidator "NumberOptions option"
  | StringValidator "StringOptions option"
  | DateValidator "TrKey option"
  | FunctionValidator "jsval \<Rightarrow> FunctionOptions option \<Rightarrow> bool" "FunctionOptions option"
  | UnknownValidator string "TrKey option"

record ValidationProperty =
  p_modelName :: "string option"
  p_name :: string
  p_value :: jsval

record ValidationResult =
  vr_name :: string
  vr_value :: jsval
  vr_isValid :: bool
  vr_errors :: "string list"

text \<open>
  What validation.ts imports: \<^verbatim>\<open>translate\<close> of the translation module, the test of
  \<^verbatim>\<open>EMAIL_REGEX\<close> by the regular expression engine, and \<^verbatim>\<open>moment(text).isValid()\<close>.
\<close>

record Imports =
  translate :: "string \<Rightarrow> string"
  EMAIL_REGEX_test :: "jsval \<Rightarrow> bool"
  moment_isValid :: "jsval \<Rightarrow> bool"

definition dateValidator :: "Imports \<Rightarrow> jsval \<Rightarrow> bool" where
  "dateValidator env text = moment_isValid env text"

definition emailValidator :: "Imports \<Rightarrow> jsval \<Rightarrow> bool" where
  "emailValidator env text = EMAIL_REGEX_test env text"

definition numberValidator :: "jsval \<Rightarrow> NumberOptions option \<Rightarrow> bool" where
  "numberValidator text options =
     (if isUndefined text \<or> isNull text then True
      else
        let n = to_number text
        in if isNaN n then False
           else (case options of
                   None \<Rightarrow> True
                 | Some opts \<Rightarrow>
                     let isMin = (case min_n opts of Some m \<Rightarrow> jsnum_ge n m | None \<Rightarrow> True);
                         isMax = (case max_n opts of Some m \<Rightarrow> jsnum_le n m | None \<Rightarrow> True)
                     in isMin \<and> isMax))"

text \<open>\<^verbatim>\<open>options.minLength || 0\<close>. The validator stores it back in its options, which
  changes no later result: the same expression reads it.\<close>

definition minLength_or_0 :: "jsnum option \<Rightarrow> jsnum" where
  "minLength_or_0 m = (case m of None \<Rightarrow> Fin 0 | Some n \<Rightarrow> if jsnum_truthy n then n else Fin 0)"

definition stringValidator :: "jsval \<Rightarrow> StringOptions option \<Rightarrow> bool" where
  "stringValidator text options =
     (case options of
        None \<Rightarrow> True
      | Some opts \<Rightarrow>
          let minL = minLength_or_0 (minLength opts);
              isMinLength = jsnum_ge (js_length text) minL;
              isMaxLength = (case maxLength opts of
                               Some m \<Rightarrow> jsnum_le (js_length text) m
                             | None \<Rightarrow> True)
          in isMinLength \<and> isMaxLength)"

fun validator_type :: "Validator \<Rightarrow> string" where
  "validator_type (RequiredValidator b opts) = ''required''"
| "validator_type (RegexValidator re opts) = ''regex''"
| "validator_type (EmailValidator opts) = ''email''"
| "validator_type (NumberValidator opts) = ''number''"
| "validator_type (StringValidator opts) = ''string''"
| "validator_type (DateValidator opts) = ''date''"
| "validator_type (FunctionValidator f opts) = ''function''"
| "validator_type (UnknownValidator t opts) = t"

text \<open>\<^verbatim>\<open>options && options.translationKey\<close> of a descriptor, with \<open>None\<close> for a falsy
  value (no options, no key, or the empty key).\<close>

definition truthy_key :: "string option \<Rightarrow> string option" where
  "truthy_key k = (case k of None \<Rightarrow> None | Some s \<Rightarrow> if s = [] then None else Some s)"

fun validator_translationKey :: "Validator \<Rightarrow> string option" where
  "validator_translationKey (RequiredValidator b opts) = truthy_key (Option.bind opts translationKey)"
| "validator_translationKey (RegexValidator re opts) = truthy_key (Option.bind opts translationKey)"
| "validator_translationKey (EmailValidator opts) = truthy_key (Option.bind opts translationKey)"
| "validator_translationKey (NumberValidator opts) = truthy_key (Option.bind opts translationKey)"
| "validator_translationKey (StringValidator opts) = truthy_key (Option.bind opts translationKey)"
| "validator_translationKey (DateValidator opts) = truthy_key (Option.bind opts translationKey)"
| "validator_translationKey (FunctionValidator f opts) = truthy_key (Option.bind opts translationKey)"
| "validator_translationKey (UnknownValidator t opts) = truthy_key (Option.bind opts translationKey)"

definition getErrorLabel :: "Imports \<Rightarrow> string \<Rightarrow> string \<Rightarrow> string option \<Rightarrow> string" where
  "getErrorLabel env type fieldName key =
     translate env (case key of Some k \<Rightarrow> k | None \<Rightarrow> ''domain.validation.'' @ type)"

text \<open>The value \<^verbatim>\<open>isValid\<close> of validateProperty: \<open>None\<close> is \<^verbatim>\<open>undefined\<close>, the default
  branch of the switch.\<close>

fun isValid_of :: "Imports \<Rightarrow> ValidationProperty \<Rightarrow> Validator \<Rightarrow> bool option" where
  "isValid_of env property (RequiredValidator b opts) =
     (let v = p_value property;
          prevalidString = (if JStr [] = v then False else True)
      in Some (if b then (\<not> isNull v \<and> \<not> isUndefined v \<and> prevalidString) else True))"
| "isValid_of env property (RegexValidator re opts) =
     (let v = p_value property
      in if isNull v \<or> isUndefined v then Some True else Some (re v))"
| "isValid_of env property (EmailValidator opts) =
     (let v = p_value property
      in if isNull v \<or> isUndefined v then Some True else Some (emailValidator env v))"
| "isValid_of env property (NumberValidator opts) =
     Some (numberValidator (p_value property) opts)"
| "isValid_of env property (StringValidator opts) =
     (let v = p_value property
      in Some (stringValidator (if truthy v then v else JStr []) opts))"
| "isValid_of env property (DateValidator opts) =
     Some (dateValidator env (p_value property))"
| "isValid_of env property (FunctionValidator f opts) =
     Some (f (p_value property) opts)"
| "isValid_of env property (UnknownValidator t opts) = None"

definition field_name :: "ValidationProperty \<Rightarrow> string" where
  "field_name property =
     (case p_modelName property of None \<Rightarrow> ''undefined'' | Some m \<Rightarrow> m) @ ''.'' @ p_name property"

text \<open>The error message of one validator, or \<open>None\<close> for \<^verbatim>\<open>undefined\<close>. The warning
  written to the console for an unknown type is not modelled.\<close>

definition validateProperty :: "Imports \<Rightarrow> ValidationProperty \<Rightarrow> Validator \<Rightarrow> string option" where
  "validateProperty env property validator =
     (case isValid_of env property validator of
        None \<Rightarrow> None
      | Some False \<Rightarrow>
          Some (getErrorLabel env (validator_type validator) (field_name property)
                  (validator_translationKey validator))
      | Some True \<Rightarrow> None)"

text \<open>The loop of validate: one validator, pushed on the errors when it fails.\<close>

fun validate_loop :: "Imports \<Rightarrow> ValidationProperty \<Rightarrow> Validator list \<Rightarrow> string list \<Rightarrow> string list" where
  "validate_loop env property [] errors = errors"
| "validate_loop env property (validator # rest) errors =
     (case validateProperty env property validator of
        None \<Rightarrow> validate_loop env property rest errors
      | Some res \<Rightarrow> validate_loop env property rest (errors @ [res]))"

definition validate :: "Imports \<Rightarrow> ValidationProperty \<Rightarrow> Validator list option \<Rightarrow> ValidationResult" where
  "validate env property validators =
     (let errors = (case validators of
                      None \<Rightarrow> []
                    | Some vs \<Rightarrow> validate_loop env property vs [])
      in \<lparr> vr_name = p_name property, vr_value = p_value property,
           vr_isValid = (0 = length errors), vr_errors = errors \<rparr>)"

section \<open>The search store (search/store.ts)\<close>

subsection \<open>Data\<close>

text \<open>Modelled from the spec: \<^verbatim>\<open>FacetOutput\<close>, \<^verbatim>\<open>GroupResult\<close>, \<^verbatim>\<open>QueryInput\<close> and
  \<^verbatim>\<open>QueryOutput\<close> of \<^verbatim>\<open>./types\<close>, which the store imports: a facet is
  \<^verbatim>\<open>{code, label, values[]}\<close>, a group \<^verbatim>\<open>{code, label, list, totalCount}\<close>, the request
  \<^verbatim>\<open>{criteria, facets, group, skip, sortDesc, sortFieldName, top}\<close> and the response
  \<^verbatim>\<open>{list?, groups?, facets, totalCount}\<close>. Objects with string keys are association
  lists. The type \<open>'a\<close> is the type of the result items, compared by identity.\<close>

record FacetOutput =
  f_code :: string
  f_label :: string
  f_values :: "(string \<times> int) list"

record 'a GroupResult =
  g_code :: string
  g_label :: string
  g_list :: "'a list"
  g_totalCount :: int

record QueryInput =
  q_criteria :: "(string \<times> jsval) list"
  q_facets :: "(string \<times> string) list"
  q_group :: string
  q_skip :: nat
  q_sortDesc :: bool
  q_sortFieldName :: "string option"
  q_top :: "jsnum option"

record 'a QueryOutput =
  r_list :: "'a list option"
  r_groups :: "'a GroupResult list option"
  r_facets :: "FacetOutput list"
  r_totalCount :: int

text \<open>A search service: the promise it returns is rejected with a reason (\<open>Inl\<close>) or
  resolved with a response (\<open>Inr\<close>).\<close>

type_synonym 'a SearchService = "QueryInput \<Rightarrow> string + 'a QueryOutput"

text \<open>Modelled from the spec: the fields of a criteria node, built by
  \<^verbatim>\<open>buildEntityEntry\<close> of \<^verbatim>\<open>../entity\<close>: each field carries a value and, through the domain
  of its entity, an optional validator list.\<close>

record Domain =
  d_validator :: "Validator list option"

record EntityField =
  ef_domain :: "Domain option"
  ef_value :: jsval

text \<open>Modelled from the spec: the fields \<open>query\<close>, \<open>sortAsc\<close>, \<open>sortBy\<close>, \<open>top_n\<close>
  (\<^verbatim>\<open>top\<close>), \<open>selectedList\<close>, \<open>pendingCount\<close> and \<open>serverCount\<close>, which the store
  inherits from \<^verbatim>\<open>ListStoreBase\<close> of \<^verbatim>\<open>../list\<close>. The other fields are those the store
  declares; \<open>store_list\<close> is its field \<^verbatim>\<open>list\<close>. The observable arrays are lists,
  replaced or cleared as a whole.\<close>

record 'a SearchStore =
  blockSearch :: bool
  criteria :: "(string \<times> EntityField) list option"
  groupingKey :: "string option"
  selectedFacets :: "(string \<times> string) list"
  facets :: "FacetOutput list"
  store_list :: "'a list"
  groups :: "'a GroupResult list"
  query :: string
  sortAsc :: "bool option"
  sortBy :: "string option"
  top_n :: "jsnum option"
  selectedList :: "'a list"
  pendingCount :: int
  serverCount :: int

text \<open>Modelled from the spec: \<^verbatim>\<open>selectedItems\<close> of \<^verbatim>\<open>ListStoreBase\<close>, the selection set,
  which is the set of the items of \<open>selectedList\<close> (the group view of the store builds
  its own the same way).\<close>

definition selectedItems :: "'a SearchStore \<Rightarrow> 'a set" where
  "selectedItems st = set (selectedList st)"

subsection \<open>Derived values\<close>

definition flatResultList :: "'a SearchStore \<Rightarrow> 'a list" where
  "flatResultList st =
     (if length (groups st) \<noteq> 0 then concat (map g_list (groups st)) else store_list st)"

definition currentCount :: "'a SearchStore \<Rightarrow> nat" where
  "currentCount st = length (flatResultList st)"

definition totalCount :: "'a SearchStore \<Rightarrow> int" where
  "totalCount st = serverCount st"

text \<open>Whether a criteria field fails its validators: the test of criteriaErrors.\<close>

definition field_in_error :: "Imports \<Rightarrow> EntityField \<Rightarrow> bool" where
  "field_in_error env entry =
     (case ef_domain entry of
        None \<Rightarrow> False
      | Some domain \<Rightarrow>
          (case d_validator domain of
             None \<Rightarrow> False
           | Some validators \<Rightarrow>
               ef_value entry \<noteq> JUndefined \<and> ef_value entry \<noteq> JNull
               \<and> length (vr_errors (validate env
                     \<lparr> p_modelName = None, p_name = [], p_value = ef_value entry \<rparr>
                     (Some validators))) \<noteq> 0))"

fun criteriaErrors_loop ::
  "Imports \<Rightarrow> (string \<times> EntityField) list \<Rightarrow> (string \<times> bool) list \<Rightarrow> (string \<times> bool) list" where
  "criteriaErrors_loop env [] errors = errors"
| "criteriaErrors_loop env ((key, entry) # rest) errors =
     (if key \<noteq> ''set'' \<and> key \<noteq> ''clear'' then
        (if field_in_error env entry
         then criteriaErrors_loop env rest (AList.update key True errors)
         else criteriaErrors_loop env rest (AList.update key False errors))
      else criteriaErrors_loop env rest errors)"

definition criteriaErrors :: "Imports \<Rightarrow> 'a SearchStore \<Rightarrow> (string \<times> bool) list" where
  "criteriaErrors env st =
     criteriaErrors_loop env (case criteria st of None \<Rightarrow> [] | Some c \<Rightarrow> c) []"

text \<open>Modelled from the spec: \<^verbatim>\<open>toFlatValues\<close> of \<^verbatim>\<open>../entity\<close>, the plain values view of
  the criteria node: every field with its value.\<close>

definition toFlatValues :: "(string \<times> EntityField) list \<Rightarrow> (string \<times> jsval) list" where
  "toFlatValues node = map (\<lambda>(key, entry). (key, ef_value entry)) node"

text \<open>The first loop of flatCriteria deletes the criteria in error, the second those
  whose value is the empty string or \<^verbatim>\<open>undefined\<close>.\<close>

fun delete_errors :: "(string \<times> bool) list \<Rightarrow> (string \<times> jsval) list \<Rightarrow> (string \<times> jsval) list" where
  "delete_errors [] flat = flat"
| "delete_errors ((error, b) # rest) flat =
     (if b then delete_errors rest (AList.delete error flat) else delete_errors rest flat)"

fun delete_unset :: "string list \<Rightarrow> (string \<times> jsval) list \<Rightarrow> (string \<times> jsval) list" where
  "delete_unset [] flat = flat"
| "delete_unset (criteriaKey # rest) flat =
     (if map_of flat criteriaKey = Some (JStr []) \<or> map_of flat criteriaKey = Some JUndefined
      then delete_unset rest (AList.delete criteriaKey flat)
      else delete_unset rest flat)"

definition flatCriteria :: "Imports \<Rightarrow> 'a SearchStore \<Rightarrow> (string \<times> jsval) list" where
  "flatCriteria env st =
     (case criteria st of
        None \<Rightarrow> []
      | Some node \<Rightarrow>
          let flat = delete_errors (criteriaErrors env st) (toFlatValues node)
          in delete_unset (map fst flat) flat)"

subsection \<open>Actions\<close>

definition clear :: "'a SearchStore \<Rightarrow> 'a SearchStore" where
  "clear st = st\<lparr> serverCount := 0, facets := [], store_list := [], groups := [] \<rparr>"

text \<open>The request of search: the object \<^verbatim>\<open>data\<close>.\<close>

definition search_request :: "Imports \<Rightarrow> 'a SearchStore \<Rightarrow> bool \<Rightarrow> QueryInput" where
  "search_request env st isScroll =
     (let query' = (if query st = [] then ''*'' else query st)
      in \<lparr> q_criteria = AList.update ''query'' (JStr query') (flatCriteria env st),
           q_facets = selectedFacets st,
           q_group = (case groupingKey st of None \<Rightarrow> [] | Some k \<Rightarrow> k),
           q_skip = (if isScroll \<and> length (store_list st) \<noteq> 0 then length (store_list st) else 0),
           q_sortDesc = (case sortAsc st of None \<Rightarrow> False | Some asc \<Rightarrow> \<not> asc),
           q_sortFieldName = sortBy st,
           q_top = top_n st \<rparr>)"

text \<open>What search does before it awaits the service.\<close>

definition search_before :: "'a SearchStore \<Rightarrow> 'a SearchStore" where
  "search_before st = st\<lparr> pendingCount := pendingCount st + 1, selectedList := [] \<rparr>"

text \<open>The response as search returns it: when scrolling, and the response has a list,
  the list of the store precedes it.\<close>

definition search_response :: "'a SearchStore \<Rightarrow> bool \<Rightarrow> 'a QueryOutput \<Rightarrow> 'a QueryOutput" where
  "search_response st isScroll response =
     (case r_list response of
        Some l \<Rightarrow> if isScroll then response\<lparr> r_list := Some (store_list st @ l) \<rparr> else response
      | None \<Rightarrow> response)"

text \<open>What search does once the service has answered.\<close>

definition search_after :: "'a SearchStore \<Rightarrow> bool \<Rightarrow> 'a QueryOutput \<Rightarrow> 'a SearchStore" where
  "search_after st isScroll response =
     (let st1 = st\<lparr> pendingCount := pendingCount st - 1 \<rparr>;
          response' = search_response st1 isScroll response
      in st1\<lparr> facets := r_facets response',
              store_list := (case r_list response' of Some l \<Rightarrow> l | None \<Rightarrow> []),
              groups := (case r_groups response' of Some g \<Rightarrow> g | None \<Rightarrow> []),
              serverCount := r_totalCount response' \<rparr>)"

datatype 'r Promise = Resolved 'r | Rejected string

text \<open>One call of search that nothing interleaves with: the promise it returns
  (resolved with \<open>None\<close> for \<^verbatim>\<open>undefined\<close>), the store it leaves, and the requests it has
  sent to the service.\<close>

record 'a SearchRun =
  sr_promise :: "'a QueryOutput option Promise"
  sr_store :: "'a SearchStore"
  sr_requests :: "QueryInput list"

definition search :: "Imports \<Rightarrow> 'a SearchService \<Rightarrow> 'a SearchStore \<Rightarrow> bool \<Rightarrow> 'a SearchRun" where
  "search env service st isScroll =
     (if blockSearch st then
        \<lparr> sr_promise = Resolved None, sr_store = st, sr_requests = [] \<rparr>
      else
        let data = search_request env st isScroll;
            st1 = search_before st
        in (case service data of
              Inl reason \<Rightarrow>
                \<lparr> sr_promise = Rejected reason, sr_store = st1, sr_requests = [data] \<rparr>
            | Inr response \<Rightarrow>
                \<lparr> sr_promise = Resolved (Some (search_response st1 isScroll response)),
                  sr_store = search_after st1 isScroll response,
                  sr_requests = [data] \<rparr>))"

definition toggleAll :: "'a SearchStore \<Rightarrow> 'a SearchStore" where
  "toggleAll st =
     (if card (selectedItems st) = currentCount st
      then st\<lparr> selectedList := [] \<rparr>
      else st\<lparr> selectedList := flatResultList st \<rparr>)"

text \<open>The argument of setProperties: a key is absent, or present with a value that may
  be \<^verbatim>\<open>undefined\<close> (\<open>None\<close>).\<close>

datatype 'v member = Absent | Present "'v option"

fun hasOwnProperty :: "'v member \<Rightarrow> bool" where
  "hasOwnProperty Absent = False"
| "hasOwnProperty (Present v) = True"

text \<open>Reading a key: \<^verbatim>\<open>undefined\<close> when it is absent.\<close>

fun member_value :: "'v member \<Rightarrow> 'v option" where
  "member_value Absent = None"
| "member_value (Present v) = v"

record SearchProperties =
  sp_query :: "string member"
  sp_groupingKey :: "string member"
  sp_selectedFacets :: "(string \<times> string) list member"
  sp_sortAsc :: "bool member"
  sp_sortBy :: "string member"
  sp_top :: "jsnum member"

definition setProperties :: "SearchProperties \<Rightarrow> 'a SearchStore \<Rightarrow> 'a SearchStore" where
  "setProperties props st =
     st\<lparr> groupingKey := (if hasOwnProperty (sp_groupingKey props)
                          then member_value (sp_groupingKey props) else groupingKey st),
         selectedFacets := (case member_value (sp_selectedFacets props) of
                              Some f \<Rightarrow> f | None \<Rightarrow> selectedFacets st),
         sortAsc := (if member_value (sp_sortAsc props) \<noteq> None
                     then member_value (sp_sortAsc props) else sortAsc st),
         sortBy := (if hasOwnProperty (sp_sortBy props)
                    then member_value (sp_sortBy props) else sortBy st),
         query := (case member_value (sp_query props) of
                     Some q \<Rightarrow> if q \<noteq> [] then q else query st
                   | None \<Rightarrow> query st),
         top_n := (case member_value (sp_top props) of
                     Some n \<Rightarrow> if jsnum_truthy n then Some n else top_n st
                   | None \<Rightarrow> top_n st) \<rparr>"

subsection \<open>The view of one group (getSearchGroupStore)\<close>

datatype error = TypeError

text \<open>\<^verbatim>\<open>store.groups.find(result => result.code === groupCode)\<close>\<close>

definition find_group :: "'a SearchStore \<Rightarrow> string \<Rightarrow> 'a GroupResult option" where
  "find_group st groupCode = find (\<lambda>result. g_code result = groupCode) (groups st)"

text \<open>Both getters read \<^verbatim>\<open>totalCount\<close> of the group found, with no guard on the lookup.\<close>

definition group_currentCount :: "'a SearchStore \<Rightarrow> string \<Rightarrow> error + int" where
  "group_currentCount st groupCode =
     (case find_group st groupCode of
        None \<Rightarrow> Inl TypeError
      | Some g \<Rightarrow> Inr (if g_totalCount g \<noteq> 0 then g_totalCount g else 0))"

definition group_totalCount :: "'a SearchStore \<Rightarrow> string \<Rightarrow> error + int" where
  "group_totalCount st groupCode =
     (case find_group st groupCode of
        None \<Rightarrow> Inl TypeError
      | Some g \<Rightarrow> Inr (if g_totalCount g \<noteq> 0 then g_totalCount g else 0))"

definition group_list :: "'a SearchStore \<Rightarrow> string \<Rightarrow> 'a list" where
  "group_list st groupCode =
     (case find_group st groupCode of None \<Rightarrow> [] | Some resultGroup \<Rightarrow> g_list resultGroup)"

text \<open>The \<^verbatim>\<open>forEach\<close> of the view's toggleAll: \<^verbatim>\<open>remove\<close> of an observable array takes
  out the first occurrence of the item.\<close>

fun remove_selected :: "'a list \<Rightarrow> 'a SearchStore \<Rightarrow> 'a SearchStore" where
  "remove_selected [] st = st"
| "remove_selected (item # rest) st =
     (if item \<in> selectedItems st
      then remove_selected rest (st\<lparr> selectedList := remove1 item (selectedList st) \<rparr>)
      else remove_selected rest st)"

definition group_toggleAll :: "'a SearchStore \<Rightarrow> string \<Rightarrow> 'a SearchStore" where
  "group_toggleAll st groupCode =
     (let areAllItemsIn = list_all (\<lambda>item. item \<in> selectedItems st) (group_list st groupCode);
          st1 = remove_selected (group_list st groupCode) st
      in if \<not> areAllItemsIn
         then st1\<lparr> selectedList := selectedList st1 @ group_list st1 groupCode \<rparr>
         else st1)"

subsection \<open>Example values\<close>

text \<open>Imports whose translation returns the key, a store holding five results of which
  three are selected, and three services.\<close>

definition example_imports :: Imports where
  "example_imports =
     \<lparr> translate = (\<lambda>key. key), EMAIL_REGEX_test = (\<lambda>v. False), moment_isValid = (\<lambda>v. False) \<rparr>"

definition example_store :: "nat SearchStore" where
  "example_store =
     \<lparr> blockSearch = False, criteria = None, groupingKey = None, selectedFacets = [],
       facets = [], store_list = [1, 2, 3, 4, 5], groups = [], query = [], sortAsc = None,
       sortBy = None, top_n = Some (Fin 50), selectedList = [1, 2, 3], pendingCount = 0,
       serverCount = 9 \<rparr>"

definition example_list_response :: "nat QueryOutput" where
  "example_list_response = \<lparr> r_list = Some [6, 7], r_groups = None, r_facets = [], r_totalCount = 9 \<rparr>"

definition example_group_response :: "nat QueryOutput" where
  "example_group_response =
     \<lparr> r_list = None,
       r_groups = Some [\<lparr> g_code = ''A'', g_label = ''Group A'', g_list = [6, 7], g_totalCount = 2 \<rparr>],
       r_facets = [], r_totalCount = 2 \<rparr>"

definition list_service :: "nat SearchService" where
  "list_service data = Inr example_list_response"

definition group_service :: "nat SearchService" where
  "group_service data = Inr example_group_response"

definition failing_service :: "nat SearchService" where
  "failing_service data = Inl ''503''"

definition no_properties :: SearchProperties where
  "no_properties =
     \<lparr> sp_query = Absent, sp_groupingKey = Absent, sp_selectedFacets = Absent,
       sp_sortAsc = Absent, sp_sortBy = Absent, sp_top = Absent \<rparr>"

definition two_groups_store :: "nat SearchStore" where
  "two_groups_store =
     example_store\<lparr> groups :=
       [\<lparr> g_code = ''A'', g_label = ''Group A'', g_list = [6, 7], g_totalCount = 2 \<rparr>,
        \<lparr> g_code = ''B'', g_label = ''Group B'', g_list = [8], g_totalCount = 4 \<rparr>],
       selectedList := [8, 6] \<rparr>"

text \<open>The list the claim expects after a response, in the spec's words: the old list
  followed by the response's list when scrolling, the response's list otherwise, an absent
  list being the empty sequence.\<close>

definition claimed_list_after :: "bool \<Rightarrow> 'a list \<Rightarrow> 'a QueryOutput \<Rightarrow> 'a list" where
  "claimed_list_after isScroll old response =
     (let l = (case r_list response of None \<Rightarrow> [] | Some l \<Rightarrow> l)
      in if isScroll then old @ l else l)"

text \<open>The criteria of the example of the spec, and criteria with validators.\<close>

definition example_criteria :: "(string \<times> EntityField) list" where
  "example_criteria =
     [(''age'', \<lparr> ef_domain = None, ef_value = JStr [] \<rparr>),
      (''city'', \<lparr> ef_domain = None, ef_value = JStr ''Paris'' \<rparr>)]"

definition validated_criteria :: "(string \<times> EntityField) list" where
  "validated_criteria =
     [(''age'', \<lparr> ef_domain = Some \<lparr> d_validator = Some [NumberValidator None] \<rparr>,
                 ef_value = JStr ''abc'' \<rparr>),
      (''city'', \<lparr> ef_domain = Some \<lparr> d_validator = Some [RequiredValidator True None] \<rparr>,
                  ef_value = JStr ''Paris'' \<rparr>),
      (''zip'', \<lparr> ef_domain = Some \<lparr> d_validator = None \<rparr>, ef_value = JUndefined \<rparr>)]"

text \<open>A field fails its configured validators, in the spec's words, when validate, run on
  its value with the validator list of its domain, reports an error; a field with no
  domain or no validator list fails none. Unlike \<open>field_in_error\<close> it has no test of the
  value.\<close>

definition fails_validators :: "Imports \<Rightarrow> EntityField \<Rightarrow> bool" where
  "fails_validators env entry =
     (case ef_domain entry of
        None \<Rightarrow> False
      | Some domain \<Rightarrow>
          (case d_validator domain of
             None \<Rightarrow> False
           | Some validators \<Rightarrow>
               vr_errors (validate env
                   \<lparr> p_modelName = None, p_name = [], p_value = ef_value entry \<rparr>
                   (Some validators)) \<noteq> []))"

text \<open>A required field whose value is \<^verbatim>\<open>null\<close>.\<close>

definition null_field :: EntityField where
  "null_field =
     \<lparr> ef_domain = Some \<lparr> d_validator = Some [RequiredValidator True None] \<rparr>,
       ef_value = JNull \<rparr>"

definition null_criteria :: "(string \<times> EntityField) list" where
  "null_criteria = [(''a'', null_field)]"

section \<open>Properties\<close>

subsection \<open>Validation\<close>

lemma validate_loop_append:
  "validate_loop env p vs acc = acc @ List.map_filter (validateProperty env p) vs"
  by (induction vs arbitrary: acc) (auto split: option.splits)

lemma map_filter_validateProperty:
  "List.map_filter (validateProperty env p) vs =
     map (\<lambda>v. getErrorLabel env (validator_type v) (field_name p) (validator_translationKey v))
       (filter (\<lambda>v. isValid_of env p v = Some False) vs)"
  by (induction vs) (auto simp: validateProperty_def split: option.splits bool.splits)

lemmas number_eval = validate_def validateProperty_def numberValidator_def isUndefined_def isNull_def isNaN_def
    string_to_number_def trim_def is_ws_def radix_literal_def signed_decimal_def unsigned_decimal_def is_digit_def
    digits_val_def digit_val_def scale10_def jsnum_ge_def

text \<open>C7: validate runs the validators in order and collects one message for every
  validator that fails, not only the first; the result is valid exactly when no message
  was collected. So \<^verbatim>\<open>"abc"\<close> fails the number validator, \<^verbatim>\<open>"42"\<close> passes the number
  validator with bounds 0 and 100, and 150 fails the number validator with maximum 100.\<close>

theorem validate_accumulates:
  "vr_errors (validate env p (Some vs)) =
     map (\<lambda>v. getErrorLabel env (validator_type v) (field_name p) (validator_translationKey v))
       (filter (\<lambda>v. isValid_of env p v = Some False) vs)
   \<and> vr_isValid (validate env p validators) = (vr_errors (validate env p validators) = [])
   \<and> \<not> vr_isValid (validate env \<lparr> p_modelName = m, p_name = n, p_value = JStr ''abc'' \<rparr>
          (Some [NumberValidator None]))
   \<and> vr_isValid (validate env \<lparr> p_modelName = m, p_name = n, p_value = JStr ''42'' \<rparr>
          (Some [NumberValidator (Some \<lparr> translationKey = None, min_n = Some (Fin 0), max_n = Some (Fin 100) \<rparr>)]))
   \<and> \<not> vr_isValid (validate env \<lparr> p_modelName = m, p_name = n, p_value = JNum (Fin 150) \<rparr>
          (Some [NumberValidator (Some \<lparr> translationKey = None, min_n = None, max_n = Some (Fin 100) \<rparr>)]))"
proof (intro conjI)
  show "vr_errors (validate env p (Some vs)) =
     map (\<lambda>v. getErrorLabel env (validator_type v) (field_name p) (validator_translationKey v))
       (filter (\<lambda>v. isValid_of env p v = Some False) vs)"
    by (simp add: validate_def validate_loop_append map_filter_validateProperty)
  show "vr_isValid (validate env p validators) = (vr_errors (validate env p validators) = [])"
    by (auto simp: validate_def Let_def)
  show "\<not> vr_isValid (validate env \<lparr> p_modelName = m, p_name = n, p_value = JStr ''abc'' \<rparr>
          (Some [NumberValidator None]))"
    by (simp add: number_eval)
  show "vr_isValid (validate env \<lparr> p_modelName = m, p_name = n, p_value = JStr ''42'' \<rparr>
          (Some [NumberValidator (Some \<lparr> translationKey = None, min_n = Some (Fin 0), max_n = Some (Fin 100) \<rparr>)]))"
    by (simp add: number_eval)
  show "\<not> vr_isValid (validate env \<lparr> p_modelName = m, p_name = n, p_value = JNum (Fin 150) \<rparr>
          (Some [NumberValidator (Some \<lparr> translationKey = None, min_n = None, max_n = Some (Fin 100) \<rparr>)]))"
    by (simp add: number_eval)
qed

theorem validate_accumulates_witness:
  "vr_errors (validate example_imports \<lparr> p_modelName = None, p_name = ''age'', p_value = JStr ''abc'' \<rparr>
     (Some [NumberValidator None, RequiredValidator True None,
            StringValidator (Some \<lparr> translationKey = Some ''too.short'', minLength = Some (Fin 5), maxLength = None \<rparr>)]))
   = [''domain.validation.number'', ''too.short'']"
proof -
  have "vr_errors (validate example_imports \<lparr> p_modelName = None, p_name = ''age'', p_value = JStr ''abc'' \<rparr>
     (Some [NumberValidator None, RequiredValidator True None,
            StringValidator (Some \<lparr> translationKey = Some ''too.short'', minLength = Some (Fin 5), maxLength = None \<rparr>)]))
    = map (\<lambda>v. getErrorLabel example_imports (validator_type v)
             (field_name \<lparr> p_modelName = None, p_name = ''age'', p_value = JStr ''abc'' \<rparr>) (validator_translationKey v))
       (filter (\<lambda>v. isValid_of example_imports \<lparr> p_modelName = None, p_name = ''age'', p_value = JStr ''abc'' \<rparr> v = Some False)
          [NumberValidator None, RequiredValidator True None,
            StringValidator (Some \<lparr> translationKey = Some ''too.short'', minLength = Some (Fin 5), maxLength = None \<rparr>)])"
    by (rule validate_accumulates [THEN conjunct1])
  also have "\<dots> = [''domain.validation.number'', ''too.short'']"
    by (simp add: number_eval stringValidator_def minLength_or_0_def jsnum_truthy_def
        getErrorLabel_def example_imports_def truthy_key_def)
  finally show ?thesis .
qed

subsection \<open>The flat criteria\<close>

lemma criteriaErrors_loop_map_of:
  assumes "distinct (map fst node)" and "''set'' \<notin> fst ` set node" and "''clear'' \<notin> fst ` set node"
  shows "map_of (criteriaErrors_loop env node acc) k
           = (case map_of node k of Some e \<Rightarrow> Some (field_in_error env e) | None \<Rightarrow> map_of acc k)"
  using assms
proof (induction node arbitrary: acc)
  case Nil
  then show ?case by simp
next
  case (Cons kv rest)
  obtain key entry where kv: "kv = (key, entry)" by (cases kv)
  from Cons.prems kv have fresh: "map_of rest key = None"
    by (simp add: map_of_eq_None_iff)
  from Cons.prems kv have names: "key \<noteq> ''set''" "key \<noteq> ''clear''"
    by auto
  from Cons.prems have rest: "distinct (map fst rest)" "''set'' \<notin> fst ` set rest" "''clear'' \<notin> fst ` set rest"
    by auto
  have step: "map_of (criteriaErrors_loop env rest (AList.update key b acc)) k
                = (case map_of rest k of
                     Some e \<Rightarrow> Some (field_in_error env e)
                   | None \<Rightarrow> ((map_of acc)(key \<mapsto> b)) k)" for b
    using Cons.IH [OF rest, of "AList.update key b acc"]
    by (simp add: update_conv' split: option.splits)
  show ?case
  proof (cases "k = key")
    case True
    have "map_of (criteriaErrors_loop env rest (AList.update key b acc)) key = Some b" for b
      using step [of b] fresh unfolding True by simp
    with fresh names show ?thesis by (simp add: kv True)
  next
    case False
    with names show ?thesis by (simp add: kv step split: option.splits)
  qed
qed

lemma criteriaErrors_loop_distinct:
  "distinct (map fst acc) \<Longrightarrow> distinct (map fst (criteriaErrors_loop env node acc))"
  by (induction env node acc rule: criteriaErrors_loop.induct) (simp_all add: distinct_update)

lemma delete_errors_map_of:
  "map_of (delete_errors errs flat) k = (if (k, True) \<in> set errs then None else map_of flat k)"
  by (induction errs flat rule: delete_errors.induct) (auto simp: delete_conv')

lemma delete_errors_distinct:
  "distinct (map fst flat) \<Longrightarrow> distinct (map fst (delete_errors errs flat))"
  by (induction errs flat rule: delete_errors.induct) (simp_all add: distinct_delete)

lemma delete_unset_map_of:
  "map_of (delete_unset keys flat) k
     = (if k \<in> set keys \<and> (map_of flat k = Some (JStr []) \<or> map_of flat k = Some JUndefined)
        then None else map_of flat k)"
  by (induction keys flat rule: delete_unset.induct) (auto simp: delete_conv')

lemma delete_unset_distinct:
  "distinct (map fst flat) \<Longrightarrow> distinct (map fst (delete_unset keys flat))"
  by (induction keys flat rule: delete_unset.induct) (simp_all add: distinct_delete)

lemma toFlatValues_map_of: "map_of (toFlatValues node) k = map_option ef_value (map_of node k)"
  by (simp add: toFlatValues_def map_of_map)

lemma toFlatValues_keys: "map fst (toFlatValues node) = map fst node"
  by (simp add: toFlatValues_def case_prod_unfold comp_def)

lemma flatCriteria_map_of:
  assumes c: "criteria st = Some node"
    and d: "distinct (map fst node)"
    and s: "''set'' \<notin> fst ` set node" "''clear'' \<notin> fst ` set node"
  shows "map_of (flatCriteria env st) k
           = (case map_of node k of
                None \<Rightarrow> None
              | Some e \<Rightarrow>
                  if field_in_error env e \<or> ef_value e = JStr [] \<or> ef_value e = JUndefined
                  then None else Some (ef_value e))"
proof -
  let ?errs = "criteriaErrors env st"
  let ?flat = "delete_errors ?errs (toFlatValues node)"
  have errs: "map_of ?errs k = (case map_of node k of Some e \<Rightarrow> Some (field_in_error env e) | None \<Rightarrow> None)"
    using criteriaErrors_loop_map_of [OF d s, of env "[]" k] c
    by (simp add: criteriaErrors_def split: option.splits)
  have "distinct (map fst ?errs)"
    unfolding criteriaErrors_def by (rule criteriaErrors_loop_distinct) simp
  then have mem: "((k, True) \<in> set ?errs) = (map_of ?errs k = Some True)"
    by simp
  have flat: "map_of ?flat k = (if map_of ?errs k = Some True then None else map_option ef_value (map_of node k))"
    by (simp only: delete_errors_map_of mem toFlatValues_map_of)
  have keys: "(k \<in> set (map fst ?flat)) = (map_of ?flat k \<noteq> None)"
    by (simp add: map_of_eq_None_iff)
  have "map_of (flatCriteria env st) k = map_of (delete_unset (map fst ?flat) ?flat) k"
    using c by (simp add: flatCriteria_def Let_def)
  also have "\<dots> = (if map_of ?flat k = Some (JStr []) \<or> map_of ?flat k = Some JUndefined
                     then None else map_of ?flat k)"
    unfolding delete_unset_map_of keys by auto
  also have "\<dots> = (case map_of node k of
                None \<Rightarrow> None
              | Some e \<Rightarrow>
                  if field_in_error env e \<or> ef_value e = JStr [] \<or> ef_value e = JUndefined
                  then None else Some (ef_value e))"
    unfolding flat errs by (auto split: option.splits)
  finally show ?thesis .
qed

lemma flatCriteria_distinct:
  assumes "criteria st = Some node" and "distinct (map fst node)"
  shows "distinct (map fst (flatCriteria env st))"
  using assms
  by (simp add: flatCriteria_def Let_def delete_unset_distinct delete_errors_distinct toFlatValues_keys)

lemma field_in_error_iff:
  "field_in_error env entry
     = (ef_value entry \<noteq> JUndefined \<and> ef_value entry \<noteq> JNull \<and> fails_validators env entry)"
  by (simp add: field_in_error_def fails_validators_def split: option.splits)

text \<open>C4, as stated, fails: a field whose value is \<^verbatim>\<open>null\<close> and whose required validator
  fails stays in the flat criteria, since criteriaErrors validates no value that is
  \<^verbatim>\<open>null\<close> or \<^verbatim>\<open>undefined\<close>.\<close>

theorem flatCriteria_null_counterexample:
  "fails_validators example_imports null_field
   \<and> map_of null_criteria ''a'' = Some null_field
   \<and> flatCriteria example_imports (example_store\<lparr> criteria := Some null_criteria \<rparr>)
       = [(''a'', JNull)]"
  by (simp add: fails_validators_def null_field_def null_criteria_def validate_def
      validateProperty_def isNull_def isUndefined_def flatCriteria_def criteriaErrors_def
      field_in_error_def toFlatValues_def Let_def)

text \<open>C4, amended: the flat criteria hold exactly the fields of the criteria node whose
  value is neither the empty string nor undefined and that either have the value null or
  do not fail their configured validators, each with its value: the validators are not
  run on a null value, which is kept (the fields of the node have distinct names, and
  \<^verbatim>\<open>set\<close> and \<^verbatim>\<open>clear\<close> are its methods, not fields). The criteria
  \<^verbatim>\<open>{age: "", city: "Paris"}\<close> flatten to \<^verbatim>\<open>{city: "Paris"}\<close>.\<close>

theorem flatCriteria_fields:
  assumes "criteria st = Some node"
    and "distinct (map fst node)"
    and "''set'' \<notin> fst ` set node" and "''clear'' \<notin> fst ` set node"
  shows "(map_of (flatCriteria env st) key = Some v)
           = (\<exists>entry. map_of node key = Some entry \<and> ef_value entry = v
                \<and> v \<noteq> JStr [] \<and> v \<noteq> JUndefined
                \<and> (v = JNull \<or> \<not> fails_validators env entry))
       \<and> distinct (map fst (flatCriteria env st))
       \<and> flatCriteria env (st\<lparr> criteria := Some example_criteria \<rparr>) = [(''city'', JStr ''Paris'')]"
proof (intro conjI)
  show "(map_of (flatCriteria env st) key = Some v)
           = (\<exists>entry. map_of node key = Some entry \<and> ef_value entry = v
                \<and> v \<noteq> JStr [] \<and> v \<noteq> JUndefined
                \<and> (v = JNull \<or> \<not> fails_validators env entry))"
    unfolding flatCriteria_map_of [OF assms] field_in_error_iff by (auto split: option.splits)
  show "distinct (map fst (flatCriteria env st))"
    using assms(1,2) by (rule flatCriteria_distinct)
  show "flatCriteria env (st\<lparr> criteria := Some example_criteria \<rparr>) = [(''city'', JStr ''Paris'')]"
    by (simp add: flatCriteria_def criteriaErrors_def example_criteria_def toFlatValues_def
        field_in_error_def Let_def)
qed

theorem flatCriteria_fields_witness:
  "criteria (example_store\<lparr> criteria := Some validated_criteria \<rparr>) = Some validated_criteria
   \<and> distinct (map fst validated_criteria)
   \<and> ''set'' \<notin> fst ` set validated_criteria \<and> ''clear'' \<notin> fst ` set validated_criteria
   \<and> map_of (flatCriteria example_imports (example_store\<lparr> criteria := Some validated_criteria \<rparr>)) ''city''
       = Some (JStr ''Paris'')
   \<and> map_of (flatCriteria example_imports (example_store\<lparr> criteria := Some validated_criteria \<rparr>)) ''age''
       \<noteq> Some (JStr ''abc'')"
proof -
  have c: "criteria (example_store\<lparr> criteria := Some validated_criteria \<rparr>) = Some validated_criteria"
    by simp
  have d: "distinct (map fst validated_criteria)"
    by (simp add: validated_criteria_def)
  have s: "''set'' \<notin> fst ` set validated_criteria" and cl: "''clear'' \<notin> fst ` set validated_criteria"
    by (simp_all add: validated_criteria_def)
  note th = flatCriteria_fields [OF c d s cl, of example_imports, THEN conjunct1]
  have ok: "\<not> fails_validators example_imports
              \<lparr> ef_domain = Some \<lparr> d_validator = Some [RequiredValidator True None] \<rparr>,
                ef_value = JStr ''Paris'' \<rparr>"
    by (simp add: fails_validators_def validate_def validateProperty_def isNull_def isUndefined_def)
  have bad: "fails_validators example_imports
              \<lparr> ef_domain = Some \<lparr> d_validator = Some [NumberValidator None] \<rparr>,
                ef_value = JStr ''abc'' \<rparr>"
    by (simp add: fails_validators_def validate_def validateProperty_def numberValidator_def
        isUndefined_def isNull_def isNaN_def string_to_number_def trim_def is_ws_def
        radix_literal_def signed_decimal_def unsigned_decimal_def is_digit_def)
  have a: "map_of (flatCriteria example_imports (example_store\<lparr> criteria := Some validated_criteria \<rparr>)) ''city''
       = Some (JStr ''Paris'')"
    unfolding th [of "''city''" "JStr ''Paris''"] using ok by (simp add: validated_criteria_def)
  have b: "map_of (flatCriteria example_imports (example_store\<lparr> criteria := Some validated_criteria \<rparr>)) ''age''
       \<noteq> Some (JStr ''abc'')"
    unfolding th [of "''age''" "JStr ''abc''"] using bad by (simp add: validated_criteria_def)
  from c d s cl a b show ?thesis by (intro conjI)
qed

subsection \<open>search\<close>

text \<open>C1, as stated, fails: when scrolling, a response that carries no list (a grouped
  response) leaves the store with the empty list, not with the old list.\<close>

theorem search_scroll_counterexample:
  "\<not> blockSearch example_store
   \<and> store_list (sr_store (search example_imports group_service example_store True))
       \<noteq> claimed_list_after True (store_list example_store) example_group_response"
  by (simp add: search_def Let_def example_store_def group_service_def example_group_response_def
      search_after_def search_before_def search_response_def claimed_list_after_def)

text \<open>C1, amended: a search on a store that is not blocked sends one request, whose skip
  is the length of the store's list when scrolling and 0 otherwise. When the response
  carries a list, the store then holds the old list followed by the response's list when
  scrolling, and the response's list otherwise; when the response carries no list, the
  store then holds the empty list.\<close>

theorem search_skip_and_list:
  assumes "\<not> blockSearch st"
  shows "map q_skip (sr_requests (search env service st isScroll))
           = [if isScroll then length (store_list st) else 0]
       \<and> (\<forall>response l. service (search_request env st isScroll) = Inr response \<and> r_list response = Some l
            \<longrightarrow> store_list (sr_store (search env service st isScroll))
                  = (if isScroll then store_list st @ l else l))
       \<and> (\<forall>response. service (search_request env st isScroll) = Inr response \<and> r_list response = None
            \<longrightarrow> store_list (sr_store (search env service st isScroll)) = [])"
  using assms
  by (auto simp: search_def Let_def search_request_def search_after_def search_before_def
      search_response_def split: sum.splits)

theorem search_skip_and_list_witness:
  "\<not> blockSearch example_store
   \<and> map q_skip (sr_requests (search example_imports list_service example_store True)) = [5]
   \<and> store_list (sr_store (search example_imports list_service example_store True)) = [1, 2, 3, 4, 5, 6, 7]"
proof -
  have nb: "\<not> blockSearch example_store" by (simp add: example_store_def)
  note th = search_skip_and_list [OF nb, of example_imports list_service True]
  have "map q_skip (sr_requests (search example_imports list_service example_store True))
          = [if True then length (store_list example_store) else 0]"
    by (rule th [THEN conjunct1])
  then have a: "map q_skip (sr_requests (search example_imports list_service example_store True)) = [5]"
    by (simp add: example_store_def)
  have s: "list_service (search_request example_imports example_store True) = Inr example_list_response
           \<and> r_list example_list_response = Some [6, 7]"
    by (simp add: list_service_def example_list_response_def)
  have "store_list (sr_store (search example_imports list_service example_store True))
          = (if True then store_list example_store @ [6, 7] else [6, 7])"
    using th [THEN conjunct2, THEN conjunct1] s by blast
  then have b: "store_list (sr_store (search example_imports list_service example_store True)) = [1, 2, 3, 4, 5, 6, 7]"
    by (simp add: example_store_def)
  from nb a b show ?thesis by (intro conjI)
qed

text \<open>C3, as stated, fails: with sortAsc undefined the request has sortDesc false.\<close>

theorem sortDesc_default_counterexample:
  "\<not> blockSearch example_store \<and> sortAsc example_store = None
   \<and> map q_sortDesc (sr_requests (search example_imports list_service example_store False)) = [False]"
  by (simp add: search_def Let_def example_store_def list_service_def search_request_def)

text \<open>C3, amended: the request of a search has sortDesc equal to the negation of sortAsc
  when sortAsc is defined, and sortDesc false when sortAsc is undefined.\<close>

theorem sortDesc_of_sortAsc:
  assumes "\<not> blockSearch st"
  shows "map q_sortDesc (sr_requests (search env service st isScroll))
           = [case sortAsc st of None \<Rightarrow> False | Some asc \<Rightarrow> \<not> asc]"
  using assms
  by (auto simp: search_def Let_def search_request_def split: sum.splits)

theorem sortDesc_of_sortAsc_witness:
  "\<not> blockSearch (example_store\<lparr> sortAsc := Some True \<rparr>)
   \<and> map q_sortDesc (sr_requests
         (search example_imports list_service (example_store\<lparr> sortAsc := Some True \<rparr>) False)) = [False]
   \<and> map q_sortDesc (sr_requests
         (search example_imports list_service (example_store\<lparr> sortAsc := Some False \<rparr>) False)) = [True]"
proof -
  have nb: "\<not> blockSearch (example_store\<lparr> sortAsc := Some True \<rparr>)" by (simp add: example_store_def)
  have nb': "\<not> blockSearch (example_store\<lparr> sortAsc := Some False \<rparr>)" by (simp add: example_store_def)
  have a: "map q_sortDesc (sr_requests
         (search example_imports list_service (example_store\<lparr> sortAsc := Some True \<rparr>) False)) = [False]"
    using sortDesc_of_sortAsc [OF nb, of example_imports list_service False] by simp
  have b: "map q_sortDesc (sr_requests
         (search example_imports list_service (example_store\<lparr> sortAsc := Some False \<rparr>) False)) = [True]"
    using sortDesc_of_sortAsc [OF nb', of example_imports list_service False] by simp
  from nb a b show ?thesis by (intro conjI)
qed

text \<open>C5: on a blocked store search does nothing: it sends no request to the service,
  resolves with \<^verbatim>\<open>undefined\<close> and leaves the store as it was.\<close>

theorem search_blocked_noop:
  assumes "blockSearch st"
  shows "search env service st isScroll
           = \<lparr> sr_promise = Resolved None, sr_store = st, sr_requests = [] \<rparr>"
  using assms by (simp add: search_def)

theorem search_blocked_noop_witness:
  "blockSearch (example_store\<lparr> blockSearch := True \<rparr>)
   \<and> search example_imports failing_service (example_store\<lparr> blockSearch := True \<rparr>) True
       = \<lparr> sr_promise = Resolved None, sr_store = example_store\<lparr> blockSearch := True \<rparr>, sr_requests = [] \<rparr>"
proof -
  have b: "blockSearch (example_store\<lparr> blockSearch := True \<rparr>)" by simp
  from b search_blocked_noop [OF b, of example_imports failing_service True]
  show ?thesis by (intro conjI)
qed

text \<open>C9: when the service rejects, search rejects with the same reason, and the store
  keeps the incremented pendingCount and the emptied selection, while facets, list,
  groups and serverCount are those before the call.\<close>

theorem search_rejected:
  assumes "\<not> blockSearch st" and "service (search_request env st isScroll) = Inl reason"
  shows "sr_promise (search env service st isScroll) = Rejected reason
       \<and> pendingCount (sr_store (search env service st isScroll)) = pendingCount st + 1
       \<and> selectedList (sr_store (search env service st isScroll)) = []
       \<and> facets (sr_store (search env service st isScroll)) = facets st
       \<and> store_list (sr_store (search env service st isScroll)) = store_list st
       \<and> groups (sr_store (search env service st isScroll)) = groups st
       \<and> serverCount (sr_store (search env service st isScroll)) = serverCount st"
  using assms by (simp add: search_def Let_def search_before_def)

theorem search_rejected_witness:
  "\<not> blockSearch example_store
   \<and> failing_service (search_request example_imports example_store False) = Inl ''503''
   \<and> sr_promise (search example_imports failing_service example_store False) = Rejected ''503''
   \<and> pendingCount (sr_store (search example_imports failing_service example_store False)) = 1
   \<and> selectedList (sr_store (search example_imports failing_service example_store False)) = []
   \<and> store_list (sr_store (search example_imports failing_service example_store False)) = [1, 2, 3, 4, 5]"
proof -
  have nb: "\<not> blockSearch example_store" by (simp add: example_store_def)
  have rj: "failing_service (search_request example_imports example_store False) = Inl ''503''"
    by (simp add: failing_service_def)
  note th = search_rejected [of example_store failing_service example_imports False "''503''", OF nb rj]
  have a: "sr_promise (search example_imports failing_service example_store False) = Rejected ''503''"
    by (rule th [THEN conjunct1])
  have b: "pendingCount (sr_store (search example_imports failing_service example_store False)) = 1"
    using th [THEN conjunct2, THEN conjunct1] by (simp add: example_store_def)
  have c: "selectedList (sr_store (search example_imports failing_service example_store False)) = []"
    by (rule th [THEN conjunct2, THEN conjunct2, THEN conjunct1])
  have d: "store_list (sr_store (search example_imports failing_service example_store False)) = [1, 2, 3, 4, 5]"
    using th [THEN conjunct2, THEN conjunct2, THEN conjunct2, THEN conjunct2, THEN conjunct1]
    by (simp add: example_store_def)
  from nb rj a b c d show ?thesis by (intro conjI)
qed

subsection \<open>setProperties and toggleAll\<close>

text \<open>C2, as stated, fails: sortAsc is updated by the falsy value \<^verbatim>\<open>false\<close>.\<close>

theorem setProperties_sortAsc_counterexample:
  "sortAsc (example_store\<lparr> sortAsc := Some True \<rparr>) = Some True
   \<and> sortAsc (setProperties (no_properties\<lparr> sp_sortAsc := Present (Some False) \<rparr>)
        (example_store\<lparr> sortAsc := Some True \<rparr>)) = Some False"
  by (simp add: setProperties_def no_properties_def)

text \<open>C2, amended: groupingKey and sortBy take the supplied value whenever their key is
  present, also when the value is undefined; query, top and selectedFacets are updated
  only when the supplied value is truthy (a non-empty string, a number other than 0 and
  NaN, any object); sortAsc is updated whenever the supplied value is not undefined, also
  when it is false; every other field of the store keeps its value.\<close>

theorem setProperties_fields:
  "groupingKey (setProperties props st)
     = (case sp_groupingKey props of Absent \<Rightarrow> groupingKey st | Present v \<Rightarrow> v)
   \<and> sortBy (setProperties props st)
     = (case sp_sortBy props of Absent \<Rightarrow> sortBy st | Present v \<Rightarrow> v)
   \<and> query (setProperties props st)
     = (case sp_query props of
          Present (Some q) \<Rightarrow> if q = [] then query st else q
        | _ \<Rightarrow> query st)
   \<and> top_n (setProperties props st)
     = (case sp_top props of
          Present (Some n) \<Rightarrow> if n = NaN \<or> n = Fin 0 then top_n st else Some n
        | _ \<Rightarrow> top_n st)
   \<and> selectedFacets (setProperties props st)
     = (case sp_selectedFacets props of Present (Some f) \<Rightarrow> f | _ \<Rightarrow> selectedFacets st)
   \<and> sortAsc (setProperties props st)
     = (case sp_sortAsc props of Present (Some asc) \<Rightarrow> Some asc | _ \<Rightarrow> sortAsc st)
   \<and> setProperties props st
     = st\<lparr> groupingKey := groupingKey (setProperties props st),
           selectedFacets := selectedFacets (setProperties props st),
           sortAsc := sortAsc (setProperties props st),
           sortBy := sortBy (setProperties props st),
           query := query (setProperties props st),
           top_n := top_n (setProperties props st) \<rparr>"
  by (simp add: setProperties_def jsnum_truthy_def split: member.splits option.splits)

theorem setProperties_fields_witness:
  "sortBy (setProperties (no_properties\<lparr> sp_sortBy := Present None \<rparr>)
        (example_store\<lparr> sortBy := Some ''name'' \<rparr>)) = None
   \<and> query (setProperties (no_properties\<lparr> sp_query := Present (Some []) \<rparr>)
        (example_store\<lparr> query := ''paris'' \<rparr>)) = ''paris''"
proof -
  have a: "sortBy (setProperties (no_properties\<lparr> sp_sortBy := Present None \<rparr>)
        (example_store\<lparr> sortBy := Some ''name'' \<rparr>)) = None"
    using setProperties_fields [of "no_properties\<lparr> sp_sortBy := Present None \<rparr>"
        "example_store\<lparr> sortBy := Some ''name'' \<rparr>", THEN conjunct2, THEN conjunct1]
    by simp
  have b: "query (setProperties (no_properties\<lparr> sp_query := Present (Some []) \<rparr>)
        (example_store\<lparr> query := ''paris'' \<rparr>)) = ''paris''"
    using setProperties_fields [of "no_properties\<lparr> sp_query := Present (Some []) \<rparr>"
        "example_store\<lparr> query := ''paris'' \<rparr>", THEN conjunct2, THEN conjunct2, THEN conjunct1]
    by simp
  from a b show ?thesis by (intro conjI)
qed

text \<open>C6: toggleAll empties the selection when the number of selected items equals
  currentCount, and otherwise selects every item of the flat result list; nothing else
  in the store changes. With five results, a selection of five becomes empty and a
  selection of three becomes all five.\<close>

theorem toggleAll_selection:
  "selectedItems (toggleAll st)
     = (if card (selectedItems st) = currentCount st then {} else set (flatResultList st))
   \<and> (toggleAll st)\<lparr> selectedList := selectedList st \<rparr> = st
   \<and> currentCount example_store = 5
   \<and> selectedList (toggleAll (example_store\<lparr> selectedList := [5, 4, 3, 2, 1] \<rparr>)) = []
   \<and> selectedList (toggleAll (example_store\<lparr> selectedList := [1, 2, 3] \<rparr>)) = [1, 2, 3, 4, 5]"
  by (simp add: toggleAll_def selectedItems_def currentCount_def flatResultList_def example_store_def)

theorem toggleAll_selection_witness:
  "selectedItems (toggleAll (example_store\<lparr> selectedList := [6], groups :=
       [\<lparr> g_code = ''A'', g_label = ''Group A'', g_list = [6, 7], g_totalCount = 2 \<rparr>,
        \<lparr> g_code = ''B'', g_label = ''Group B'', g_list = [8], g_totalCount = 4 \<rparr>] \<rparr>)) = {6, 7, 8}"
proof -
  have "selectedItems (toggleAll (example_store\<lparr> selectedList := [6], groups :=
       [\<lparr> g_code = ''A'', g_label = ''Group A'', g_list = [6, 7], g_totalCount = 2 \<rparr>,
        \<lparr> g_code = ''B'', g_label = ''Group B'', g_list = [8], g_totalCount = 4 \<rparr>] \<rparr>))
     = (if card (selectedItems (example_store\<lparr> selectedList := [6], groups :=
       [\<lparr> g_code = ''A'', g_label = ''Group A'', g_list = [6, 7], g_totalCount = 2 \<rparr>,
        \<lparr> g_code = ''B'', g_label = ''Group B'', g_list = [8], g_totalCount = 4 \<rparr>] \<rparr>))
          = currentCount (example_store\<lparr> selectedList := [6], groups :=
       [\<lparr> g_code = ''A'', g_label = ''Group A'', g_list = [6, 7], g_totalCount = 2 \<rparr>,
        \<lparr> g_code = ''B'', g_label = ''Group B'', g_list = [8], g_totalCount = 4 \<rparr>] \<rparr>) then {}
        else set (flatResultList (example_store\<lparr> selectedList := [6], groups :=
       [\<lparr> g_code = ''A'', g_label = ''Group A'', g_list = [6, 7], g_totalCount = 2 \<rparr>,
        \<lparr> g_code = ''B'', g_label = ''Group B'', g_list = [8], g_totalCount = 4 \<rparr>] \<rparr>)))"
    by (rule toggleAll_selection [THEN conjunct1])
  also have "\<dots> = {6, 7, 8}"
    by (simp add: selectedItems_def currentCount_def flatResultList_def example_store_def)
  finally show ?thesis .
qed

subsection \<open>The view of one group\<close>

lemma remove_selected_only_selection:
  "(remove_selected l st)\<lparr> selectedList := sl \<rparr> = st\<lparr> selectedList := sl \<rparr>"
  by (induction l arbitrary: st) auto

lemma remove_selected_frame:
  "(remove_selected l st)\<lparr> selectedList := selectedList st \<rparr> = st"
  by (simp add: remove_selected_only_selection)

lemma remove_selected_others:
  "x \<notin> set l \<Longrightarrow> (x \<in> selectedItems (remove_selected l st)) = (x \<in> selectedItems st)"
proof (induction l arbitrary: st)
  case Nil
  then show ?case by simp
next
  case (Cons item rest)
  then have "x \<noteq> item" and "x \<notin> set rest" by auto
  then show ?case
    using Cons.IH [of "st\<lparr> selectedList := remove1 item (selectedList st) \<rparr>"] Cons.IH [of st]
    by (simp add: selectedItems_def)
qed

lemma remove_selected_groups: "groups (remove_selected l st) = groups st"
  by (induction l arbitrary: st) auto

text \<open>C8: toggleAll of a group view changes the selection status of the items of that
  group only: an item outside the group's list is selected afterwards exactly when it was
  selected before, and no other field of the store changes.\<close>

theorem group_toggleAll_frame:
  assumes "x \<notin> set (group_list st groupCode)"
  shows "(x \<in> selectedItems (group_toggleAll st groupCode)) = (x \<in> selectedItems st)
       \<and> (group_toggleAll st groupCode)\<lparr> selectedList := selectedList st \<rparr> = st"
proof -
  let ?l = "group_list st groupCode"
  let ?st1 = "remove_selected ?l st"
  have gl: "group_list ?st1 groupCode = ?l"
    by (simp add: group_list_def find_group_def remove_selected_groups)
  have x1: "(x \<in> selectedItems ?st1) = (x \<in> selectedItems st)"
    using assms by (rule remove_selected_others)
  have fr: "?st1\<lparr> selectedList := selectedList st \<rparr> = st"
    by (rule remove_selected_frame)
  have "(x \<in> selectedItems (group_toggleAll st groupCode)) = (x \<in> selectedItems st)"
    using assms x1 gl by (auto simp: group_toggleAll_def Let_def selectedItems_def)
  moreover have "(group_toggleAll st groupCode)\<lparr> selectedList := selectedList st \<rparr> = st"
    using fr by (simp add: group_toggleAll_def Let_def)
  ultimately show ?thesis by (intro conjI)
qed

theorem group_toggleAll_frame_witness:
  "8 \<notin> set (group_list two_groups_store ''A'')
   \<and> 8 \<in> selectedItems two_groups_store
   \<and> 8 \<in> selectedItems (group_toggleAll two_groups_store ''A'')
   \<and> selectedList (group_toggleAll two_groups_store ''A'') = [8, 6, 7]"
proof -
  have h: "8 \<notin> set (group_list two_groups_store ''A'')"
    by (simp add: group_list_def find_group_def two_groups_store_def)
  have s: "8 \<in> selectedItems two_groups_store"
    by (simp add: selectedItems_def two_groups_store_def)
  have t: "8 \<in> selectedItems (group_toggleAll two_groups_store ''A'')"
    using group_toggleAll_frame [OF h, THEN conjunct1] s by blast
  have l: "selectedList (group_toggleAll two_groups_store ''A'') = [8, 6, 7]"
    by (simp add: group_toggleAll_def group_list_def find_group_def two_groups_store_def
        selectedItems_def Let_def)
  from h s t l show ?thesis by (intro conjI)
qed

text \<open>C10: when no group of the store has the code of the view, reading currentCount or
  totalCount of the view throws, and reading its list returns the empty list.\<close>

theorem group_counts_throw:
  assumes "groupCode \<notin> g_code ` set (groups st)"
  shows "group_currentCount st groupCode = Inl TypeError
       \<and> group_totalCount st groupCode = Inl TypeError
       \<and> group_list st groupCode = []"
proof -
  have "find_group st groupCode = None"
    using assms by (auto simp: find_group_def find_None_iff)
  then show ?thesis
    by (simp add: group_currentCount_def group_totalCount_def group_list_def)
qed

theorem group_counts_throw_witness:
  "''B'' \<notin> g_code ` set (groups (example_store\<lparr> groups := [\<lparr> g_code = ''A'', g_label = ''Group A'', g_list = [6, 7], g_totalCount = 2 \<rparr>] \<rparr>))
   \<and> group_currentCount (example_store\<lparr> groups := [\<lparr> g_code = ''A'', g_label = ''Group A'', g_list = [6, 7], g_totalCount = 2 \<rparr>] \<rparr>) ''B'' = Inl TypeError
   \<and> group_totalCount (example_store\<lparr> groups := [\<lparr> g_code = ''A'', g_label = ''Group A'', g_list = [6, 7], g_totalCount = 2 \<rparr>] \<rparr>) ''B'' = Inl TypeError
   \<and> group_list (example_store\<lparr> groups := [\<lparr> g_code = ''A'', g_label = ''Group A'', g_list = [6, 7], g_totalCount = 2 \<rparr>] \<rparr>) ''B'' = []"
proof -
  have h: "''B'' \<notin> g_code ` set (groups (example_store\<lparr> groups := [\<lparr> g_code = ''A'', g_label = ''Group A'', g_list = [6, 7], g_totalCount = 2 \<rparr>] \<rparr>))"
    by simp
  from h group_counts_throw [OF h] show ?thesis by (intro conjI) blast+
qed

end
